theory Spec2Isabelle
  imports Main "HOL-Library.Word" "HOL-Library.Sublist"
begin

unbundle bit_operations_syntax

section \<open>build\_reconstructor: the version-to-commit resolver\<close>

text \<open>
  A shallow embedding of \<^verbatim>\<open>src/build_reconstructor.py\<close>: \<^verbatim>\<open>Package.version\<close>,
  \<^verbatim>\<open>filter_commit\<close>, \<^verbatim>\<open>safe_command\<close>, \<^verbatim>\<open>git\<close> and \<^verbatim>\<open>git_commit_from_offset\<close>,
  together with the Python built-ins they call.

  Python's \<^verbatim>\<open>str\<close> is modelled by \<^typ>\<open>string\<close>, one \<^typ>\<open>char\<close> per code point, so the
  model covers the code points 0 to 255. Python's \<^verbatim>\<open>int\<close> is \<^typ>\<open>int\<close>.
\<close>

subsection \<open>Exceptions\<close>

text \<open>
  The exceptions the modelled functions can raise. \<^verbatim>\<open>GitError(e)\<close> wraps the
  \<^verbatim>\<open>CalledProcessError\<close> of a git process that exited with a non-zero status; it carries
  that status. \<^verbatim>\<open>OSError\<close> stands for every operating-system failure other than the
  \<^verbatim>\<open>FileNotFoundError\<close> that the code raises itself.
\<close>

datatype error =
    ValueError
  | IndexError
  | FileNotFoundError string
  | GitError int
  | OSError
  | UnicodeDecodeError

subsection \<open>Python built-ins on strings and lists\<close>

text \<open>\<^verbatim>\<open>sep.join(xs)\<close>\<close>

fun py_join :: "string \<Rightarrow> string list \<Rightarrow> string" where
  "py_join sep [] = []"
| "py_join sep [x] = x"
| "py_join sep (x # y # ys) = x @ sep @ py_join sep (y # ys)"

text \<open>\<^verbatim>\<open>sub in s\<close> for strings: \<^verbatim>\<open>sub\<close> occurs in \<^verbatim>\<open>s\<close> as a contiguous block.\<close>

fun py_in :: "string \<Rightarrow> string \<Rightarrow> bool" where
  "py_in sub [] = (sub = [])"
| "py_in sub (c # cs) = (prefix sub (c # cs) \<or> py_in sub cs)"

text \<open>
  \<^verbatim>\<open>s.split(sep)\<close> for a non-empty separator: the string is cut at every occurrence of
  \<^verbatim>\<open>sep\<close>, scanning from the left; \<^verbatim>\<open>cur\<close> is the piece being read. Every call in the
  source passes a non-empty literal separator (Python raises \<^verbatim>\<open>ValueError\<close> on an empty
  one); for an empty separator this function cuts nowhere.
\<close>

function split_from :: "string \<Rightarrow> string \<Rightarrow> string \<Rightarrow> string list" where
  "split_from sep cur [] = [cur]"
| "split_from sep cur (c # cs) =
     (if sep \<noteq> [] \<and> prefix sep (c # cs)
      then cur # split_from sep [] (drop (length sep - 1) cs)
      else split_from sep (cur @ [c]) cs)"
  by pat_completeness auto
termination
  by (relation "measure (\<lambda>(sep, cur, s). length s)") auto

definition py_split :: "string \<Rightarrow> string \<Rightarrow> string list" where
  "py_split sep s = split_from sep [] s"

text \<open>\<^verbatim>\<open>s.split(' ', 1)\<close>: at most one cut, at the first space.\<close>

definition split_space1 :: "string \<Rightarrow> string list" where
  "split_space1 s =
     (if CHR '' '' \<in> set s
      then [takeWhile (\<lambda>c. c \<noteq> CHR '' '') s, tl (dropWhile (\<lambda>c. c \<noteq> CHR '' '') s)]
      else [s])"

text \<open>
  Tuple unpacking \<^verbatim>\<open>a, b = xs\<close> and \<^verbatim>\<open>_, b, _ = xs\<close>: \<^verbatim>\<open>ValueError\<close> unless the list
  has exactly that many items.
\<close>

fun unpack2 :: "'a list \<Rightarrow> error + ('a \<times> 'a)" where
  "unpack2 [a, b] = Inr (a, b)"
| "unpack2 xs = Inl ValueError"

fun unpack3 :: "'a list \<Rightarrow> error + ('a \<times> 'a \<times> 'a)" where
  "unpack3 [a, b, c] = Inr (a, b, c)"
| "unpack3 xs = Inl ValueError"

text \<open>
  \<^verbatim>\<open>xs[i]\<close>: a negative index counts from the end; \<^verbatim>\<open>IndexError\<close> outside
  \<^verbatim>\<open>-len(xs) <= i < len(xs)\<close>.
\<close>

definition py_index :: "'a list \<Rightarrow> int \<Rightarrow> error + 'a" where
  "py_index xs i =
     (if 0 \<le> i \<and> i < int (length xs) then Inr (xs ! nat i)
      else if - int (length xs) \<le> i \<and> i < 0 then Inr (xs ! nat (int (length xs) + i))
      else Inl IndexError)"

text \<open>
  \<^verbatim>\<open>s.rstrip()\<close> removes the trailing characters that \<^verbatim>\<open>str.isspace\<close> accepts: tab, LF,
  VT, FF, CR, FS, GS, RS, US, space, NEL and NBSP.
\<close>

definition py_isspace :: "char \<Rightarrow> bool" where
  "py_isspace c = (of_char c \<in> {9, 10, 11, 12, 13, 28, 29, 30, 31, 32, 133, 160 :: nat})"

definition py_rstrip :: "string \<Rightarrow> string" where
  "py_rstrip s = rev (dropWhile py_isspace (rev s))"

text \<open>
  \<^verbatim>\<open>s.splitlines()\<close>: a line ends at LF, VT, FF, FS, GS, RS, NEL, CR or CR LF; the
  terminators are dropped, and a last line without terminator is kept unless it is empty.
\<close>

definition is_linebreak :: "char \<Rightarrow> bool" where
  "is_linebreak c = (of_char c \<in> {10, 11, 12, 13, 28, 29, 30, 133 :: nat})"

fun lines_from :: "string \<Rightarrow> string \<Rightarrow> string list" where
  "lines_from cur [] = (if cur = [] then [] else [cur])"
| "lines_from cur [c] = (if is_linebreak c then [cur] else [cur @ [c]])"
| "lines_from cur (c # d # cs) =
     (if of_char c = (13 :: nat) \<and> of_char d = (10 :: nat) then cur # lines_from [] cs
      else if is_linebreak c then cur # lines_from [] (d # cs)
      else lines_from (cur @ [c]) (d # cs))"

definition splitlines :: "string \<Rightarrow> string list" where
  "splitlines s = lines_from [] s"

text \<open>\<^verbatim>\<open>os.path.basename(p)\<close> (posixpath): what follows the last slash.\<close>

definition basename :: "string \<Rightarrow> string" where
  "basename p = rev (takeWhile (\<lambda>c. c \<noteq> CHR ''/'') (rev p))"

subsection \<open>Integers and their decimal form\<close>

text \<open>\<^verbatim>\<open>str(n)\<close> for an \<^verbatim>\<open>int\<close>: decimal digits, with a leading minus sign when negative.\<close>

definition digit_char :: "nat \<Rightarrow> char" where
  "digit_char d = char_of (48 + d)"

fun str_nat :: "nat \<Rightarrow> string" where
  "str_nat n = (if n < 10 then [digit_char n] else str_nat (n div 10) @ [digit_char (n mod 10)])"

declare str_nat.simps [simp del]

definition py_str :: "int \<Rightarrow> string" where
  "py_str i = (if i < 0 then CHR ''-'' # str_nat (nat (- i)) else str_nat (nat i))"

text \<open>
  \<^verbatim>\<open>int(s)\<close> for a string, base 10: whitespace around the number is dropped (tab, LF, VT,
  FF, CR, space, NEL and NBSP; not FS, GS, RS, US), one sign is allowed, then decimal
  digits, where single underscores may stand between digits. Anything else is
  \<^verbatim>\<open>ValueError\<close>. \<^verbatim>\<open>digits_value acc prev s\<close> reads the digits; \<^verbatim>\<open>prev\<close> says that the
  previous character was a digit. The limit that recent interpreters put on the number of
  digits is not modelled.
\<close>

definition int_isspace :: "char \<Rightarrow> bool" where
  "int_isspace c = (of_char c \<in> {9, 10, 11, 12, 13, 32, 133, 160 :: nat})"

definition int_strip :: "string \<Rightarrow> string" where
  "int_strip s = dropWhile int_isspace (rev (dropWhile int_isspace (rev s)))"

definition is_digit :: "char \<Rightarrow> bool" where
  "is_digit c = (48 \<le> (of_char c :: nat) \<and> (of_char c :: nat) \<le> 57)"

definition digit_value :: "char \<Rightarrow> int" where
  "digit_value c = int (of_char c) - 48"

fun digits_value :: "int \<Rightarrow> bool \<Rightarrow> string \<Rightarrow> int option" where
  "digits_value acc prev [] = (if prev then Some acc else None)"
| "digits_value acc prev (c # cs) =
     (if is_digit c then digits_value (10 * acc + digit_value c) True cs
      else if c = CHR ''_'' \<and> prev then digits_value acc False cs
      else None)"

definition py_int :: "string \<Rightarrow> error + int" where
  "py_int s =
     (let t = int_strip s;
          (neg, body) = (case t of
                           c # cs \<Rightarrow> if c = CHR ''-'' then (True, cs)
                                     else if c = CHR ''+'' then (False, cs)
                                     else (False, t)
                         | [] \<Rightarrow> (False, t))
      in case digits_value 0 False body of
           None \<Rightarrow> Inl ValueError
         | Some v \<Rightarrow> Inr (if neg then - v else v))"

subsection \<open>The anomaly marker\<close>

definition BAD_MAGIC :: int where
  "BAD_MAGIC = 0xFACEFEED"

text \<open>
  Line 98 of the source, \<^verbatim>\<open>(int(post_commit) << 32) | BAD_MAGIC\<close>, on the integer already
  parsed.
\<close>

definition encode_anomalous :: "int \<Rightarrow> int" where
  "encode_anomalous x = push_bit 32 x OR BAD_MAGIC"

subsection \<open>Errors and effects\<close>

text \<open>Sequencing of computations that may raise: the first exception ends the computation.\<close>

definition and_then :: "error + 'a \<Rightarrow> ('a \<Rightarrow> error + 'b) \<Rightarrow> error + 'b" where
  "and_then r f = (case r of Inl e \<Rightarrow> Inl e | Inr x \<Rightarrow> f x)"

text \<open>
  What the modelled functions change: the working directory of the process
  (\<^verbatim>\<open>os.chdir\<close>) and the lines written by \<^verbatim>\<open>print\<close>.
\<close>

record world =
  cwd :: string
  stdout :: "string list"

text \<open>
  What they read from the operating system. \<^verbatim>\<open>run dir cmd\<close> is the outcome of
  \<^verbatim>\<open>subprocess.check_output(cmd, stderr=subprocess.STDOUT).decode()\<close> started in the
  working directory \<^verbatim>\<open>dir\<close>: the process ran and exited with a status and a decoded output,
  or it exited with status 0 and an output that is not valid UTF-8, or it could not be
  started. \<^verbatim>\<open>git log\<close> does not change the repository, so the outcome is a function of
  the directory and the command.
\<close>

datatype proc_outcome = Exit int string | ExitUndecodable | NotStarted

record os_env =
  path_exists :: "string \<Rightarrow> bool"
  can_chdir :: "string \<Rightarrow> bool"
  run :: "string \<Rightarrow> string list \<Rightarrow> proc_outcome"

type_synonym 'a prog = "world \<Rightarrow> (error + 'a) \<times> world"

definition ret :: "'a \<Rightarrow> 'a prog" where
  "ret x w = (Inr x, w)"

definition of_result :: "error + 'a \<Rightarrow> 'a prog" where
  "of_result r w = (r, w)"

definition then_do :: "'a prog \<Rightarrow> ('a \<Rightarrow> 'b prog) \<Rightarrow> 'b prog" where
  "then_do m f w = (case m w of (Inl e, w') \<Rightarrow> (Inl e, w') | (Inr x, w') \<Rightarrow> f x w')"

definition py_print :: "string \<Rightarrow> world \<Rightarrow> world" where
  "py_print s w = w\<lparr>stdout := stdout w @ [s]\<rparr>"

definition os_chdir :: "os_env \<Rightarrow> string \<Rightarrow> unit prog" where
  "os_chdir E p w = (if can_chdir E p then (Inr (), w\<lparr>cwd := p\<rparr>) else (Inl OSError, w))"

subsection \<open>\<^verbatim>\<open>Package.version\<close>\<close>

text \<open>
  The fields of \<^verbatim>\<open>Package\<close> that are plain data; \<^verbatim>\<open>version\<close> reads \<^verbatim>\<open>filename\<close> only.
\<close>

record package =
  filename :: string
  remote_file :: bool
  old_behavior :: bool

definition version :: "package \<Rightarrow> error + (string \<times> int)" where
  "version self =
     and_then (unpack3 (py_split ''-'' (basename (filename self)))) (\<lambda>(_, base, _).
       if py_in ''.dev'' base then
         and_then (unpack2 (py_split ''.dev'' base)) (\<lambda>(tag, post_commit).
         and_then (py_int post_commit) (\<lambda>n. Inr (tag, n)))
       else if py_in ''dev'' base then
         and_then (unpack2 (py_split ''dev'' base)) (\<lambda>(tag, post_commit).
         and_then (unpack2 (py_split ''.'' tag)) (\<lambda>(major, minor).
         and_then (py_int major) (\<lambda>major.
         and_then (py_int minor) (\<lambda>minor.
           let minor = minor - 1;
               tag = ''v'' @ py_join ''.'' [py_str major, py_str minor]
           in and_then (py_int post_commit) (\<lambda>n. Inr (tag, encode_anomalous n))))))
       else Inr (base, 0))"

subsection \<open>\<^verbatim>\<open>filter_commit\<close>\<close>

text \<open>
  The printed line is \<^verbatim>\<open>'BAD_MAGIC ({0:#08x}) detected!'.format(BAD_MAGIC)\<close>.
\<close>

definition filter_commit :: "int \<Rightarrow> world \<Rightarrow> (int \<times> bool) \<times> world" where
  "filter_commit x w =
     (if x AND 0xffffffff = BAD_MAGIC
      then ((drop_bit 32 x, True), py_print ''BAD_MAGIC (0xfacefeed) detected!'' w)
      else ((x, False), w))"

subsection \<open>\<^verbatim>\<open>safe_command\<close> and \<^verbatim>\<open>git\<close>\<close>

definition ESCAPE_CHARS :: string where
  "ESCAPE_CHARS = [CHR 0x5C, CHR '';'', CHR ''&'', CHR ''|'']"

fun safe_command_loop :: "string \<Rightarrow> string list \<Rightarrow> bool" where
  "safe_command_loop [] x = True"
| "safe_command_loop (ch # chs) x =
     (let cmdtmp = py_join '' '' x
      in if ch \<in> set cmdtmp then False else safe_command_loop chs x)"

definition safe_command :: "string list \<Rightarrow> bool" where
  "safe_command x = safe_command_loop ESCAPE_CHARS x"

definition tasks :: "string list" where
  "tasks = [''clone'', ''checkout'', ''log'', ''fetch'']"

definition git :: "os_env \<Rightarrow> string \<Rightarrow> string list \<Rightarrow> string prog" where
  "git E task args w =
     (let cmd = [''git'', task] @ args
      in if \<not> safe_command cmd then (Inl ValueError, w)
         else if task \<notin> set tasks then (Inl ValueError, w)
         else
           let w' = py_print (''Running: '' @ py_join '' '' cmd) w
           in case run E (cwd w') cmd of
                Exit rc output \<Rightarrow> if rc \<noteq> 0 then (Inl (GitError rc), w') else (Inr output, w')
              | ExitUndecodable \<Rightarrow> (Inl UnicodeDecodeError, w')
              | NotStarted \<Rightarrow> (Inl OSError, w'))"

subsection \<open>\<^verbatim>\<open>git_commit_from_offset\<close>\<close>

text \<open>The list \<^verbatim>\<open>tags\<close> of line 266.\<close>

definition tag_candidates :: "string \<Rightarrow> string \<Rightarrow> string list" where
  "tag_candidates name tag =
     [tag, ''v'' @ tag, py_join ''-'' [name, tag], name @ ''-'' @ ''v'' @ tag]"

text \<open>
  The loop of lines 271 to 276: \<^verbatim>\<open>result\<close> becomes the first line of the first query that
  does not raise \<^verbatim>\<open>GitError\<close>, and stays \<^verbatim>\<open>''\<close> when every query raises it. Any other
  exception leaves the loop and the function.
\<close>

fun first_line_loop :: "os_env \<Rightarrow> string list \<Rightarrow> string prog" where
  "first_line_loop E [] w = (Inr [], w)"
| "first_line_loop E (salvo # rest) w =
     (case git E ''log'' [''--oneline'', salvo] w of
        (Inr output, w') \<Rightarrow> of_result (py_index (splitlines output) 0) w'
      | (Inl (GitError rc), w') \<Rightarrow> first_line_loop E rest w'
      | (Inl e, w') \<Rightarrow> (Inl e, w'))"

text \<open>
  The loop of lines 289 to 294: \<^verbatim>\<open>result\<close> becomes the list of lines of the first query
  that does not raise \<^verbatim>\<open>GitError\<close>. When every query raises it, \<^verbatim>\<open>result\<close> stays the empty
  string \<^verbatim>\<open>''\<close>, which \<^verbatim>\<open>len\<close> and indexing treat as the empty list: length 0, and
  \<^verbatim>\<open>IndexError\<close> at every index.
\<close>

fun all_lines_loop :: "os_env \<Rightarrow> string list \<Rightarrow> string list prog" where
  "all_lines_loop E [] w = (Inr [], w)"
| "all_lines_loop E (salvo # rest) w =
     (case git E ''log'' [''--oneline'', salvo] w of
        (Inr output, w') \<Rightarrow> (Inr (splitlines output), w')
      | (Inl (GitError rc), w') \<Rightarrow> all_lines_loop E rest w'
      | (Inl e, w') \<Rightarrow> (Inl e, w'))"

text \<open>
  The two \<^verbatim>\<open>assert isinstance\<close> hold by typing. The assignment to \<^verbatim>\<open>offset\<close> on line 267
  is never read and is left out.
\<close>

definition git_commit_from_offset :: "os_env \<Rightarrow> string \<Rightarrow> string \<Rightarrow> int \<Rightarrow> string prog" where
  "git_commit_from_offset E path tag post_commit w0 =
     (let cwd0 = cwd w0
      in if \<not> path_exists E path then (Inl (FileNotFoundError path), w0)
         else
          (then_do (os_chdir E path) (\<lambda>_.
           then_do (of_result (py_index (py_split ''-'' (basename path)) 0)) (\<lambda>name.
           let tags = tag_candidates name tag
           in if post_commit = 0 then
                then_do (first_line_loop E tags) (\<lambda>result.
                then_do (of_result (unpack2 (split_space1 result))) (\<lambda>(rv, message).
                then_do (os_chdir E cwd0) (\<lambda>_.
                ret rv)))
              else
                then_do (\<lambda>w. case filter_commit post_commit w of (r, w') \<Rightarrow> (Inr r, w'))
                  (\<lambda>(magic_post_commit, bad_magic).
                if bad_magic then
                  then_do (git E ''log'' [''--oneline'']) (\<lambda>output.
                  then_do (of_result (py_index (splitlines output) magic_post_commit)) (\<lambda>line.
                  then_do (of_result (unpack2 (split_space1 line))) (\<lambda>(rv, message).
                  then_do (os_chdir E cwd0) (\<lambda>_.
                  ret rv))))
                else
                  then_do (all_lines_loop E tags) (\<lambda>result.
                  let tail = int (length result)
                  in then_do (of_result (py_index result (tail - post_commit))) (\<lambda>line.
                     then_do (of_result (unpack2 (split_space1 (py_rstrip line)))) (\<lambda>(rv, message).
                     then_do (os_chdir E cwd0) (\<lambda>_.
                     ret rv)))))))) w0)"

subsection \<open>Vocabulary for the statements\<close>

text \<open>
  The history query of one tag candidate, as \<^verbatim>\<open>git_commit_from_offset\<close> issues it from the
  repository directory: the command line, the line \<^verbatim>\<open>git\<close> prints before running it, and
  what the call returns or raises. \<^verbatim>\<open>query_head\<close> is the query of line 284, without a ref.
\<close>

definition log_cmd :: "string \<Rightarrow> string list" where
  "log_cmd salvo = [''git'', ''log'', ''--oneline'', salvo]"

definition running :: "string list \<Rightarrow> string" where
  "running cmd = ''Running: '' @ py_join '' '' cmd"

definition query :: "os_env \<Rightarrow> string \<Rightarrow> string \<Rightarrow> error + string" where
  "query E dir salvo = fst (git E ''log'' [''--oneline'', salvo] \<lparr>cwd = dir, stdout = []\<rparr>)"

definition query_head :: "os_env \<Rightarrow> string \<Rightarrow> error + string" where
  "query_head E dir = fst (git E ''log'' [''--oneline''] \<lparr>cwd = dir, stdout = []\<rparr>)"

fun raises_GitError :: "error + 'a \<Rightarrow> bool" where
  "raises_GitError (Inl (GitError rc)) = True"
| "raises_GitError r = False"

fun nonzero_exit :: "proc_outcome \<Rightarrow> bool" where
  "nonzero_exit (Exit rc output) = (rc \<noteq> 0)"
| "nonzero_exit p = False"

text \<open>The value of \<^verbatim>\<open>name\<close> on line 265.\<close>

definition repo_name :: "string \<Rightarrow> string" where
  "repo_name path = (case py_split ''-'' (basename path) of n # ns \<Rightarrow> n | [] \<Rightarrow> [])"

text \<open>
  The world after the history queries of the candidates \<^verbatim>\<open>cs\<close> have been run, in that
  order: each one has printed its \<^verbatim>\<open>Running:\<close> line, and nothing else has changed.
\<close>

definition attempted :: "string list \<Rightarrow> world \<Rightarrow> world" where
  "attempted cs w = w\<lparr>stdout := stdout w @ map (\<lambda>s. running (log_cmd s)) cs\<rparr>"

text \<open>
  The version strings on which \<^verbatim>\<open>Package.version\<close> raises, read off the unpackings and
  the \<^verbatim>\<open>int\<close> conversions of lines 85 to 102: not three hyphen-delimited tokens; or, for a
  base token with \<^verbatim>\<open>.dev\<close>, not exactly two pieces around \<^verbatim>\<open>.dev\<close> or an offset segment
  that is no integer; or, for a base token with \<^verbatim>\<open>dev\<close> only, not exactly two pieces around
  \<^verbatim>\<open>dev\<close>, a tag that is not two dot-delimited integers, or an offset segment that is no
  integer.
\<close>

definition malformed :: "string \<Rightarrow> bool" where
  "malformed vs =
     (case py_split ''-'' vs of
        [name, base, build] \<Rightarrow>
          if py_in ''.dev'' base then
            (case py_split ''.dev'' base of
               [tag, digits] \<Rightarrow> isl (py_int digits)
             | _ \<Rightarrow> True)
          else if py_in ''dev'' base then
            (case py_split ''dev'' base of
               [tag, digits] \<Rightarrow>
                 (case py_split ''.'' tag of
                    [major, minor] \<Rightarrow>
                      isl (py_int major) \<or> isl (py_int minor) \<or> isl (py_int digits)
                  | _ \<Rightarrow> True)
             | _ \<Rightarrow> True)
          else False
      | _ \<Rightarrow> True)"

subsection \<open>Fixtures\<close>

text \<open>
  A repository \<^verbatim>\<open>/work/foo\<close> whose tag \<^verbatim>\<open>v1.0.0\<close> reaches three commits and whose current
  branch has five. Every other ref is unknown to git, which then exits with status 128.
\<close>

definition tagged_log :: string where
  "tagged_log =
     ''c3d4e5f release 1.0.0\<newline>b2c3d4e add readme\<newline>a1b2c3d initial commit\<newline>''"

definition head_log :: string where
  "head_log = ''e5f6a7b fix typo\<newline>d4e5f6a add parser\<newline>'' @ tagged_log"

definition fixture_env :: os_env where
  "fixture_env =
     \<lparr>path_exists = (\<lambda>p. p = ''/work/foo'' \<or> p = ''/home''),
      can_chdir = (\<lambda>p. p = ''/work/foo'' \<or> p = ''/home''),
      run = (\<lambda>dir cmd.
        if dir = ''/work/foo'' \<and> cmd = [''git'', ''log'', ''--oneline'', ''v1.0.0'']
        then Exit 0 tagged_log
        else if dir = ''/work/foo'' \<and> cmd = [''git'', ''log'', ''--oneline'']
        then Exit 0 head_log
        else Exit 128 ''fatal: bad revision'')\<rparr>"

text \<open>
  The same repository with a damaged object store: the query of the ref \<^verbatim>\<open>1.0.0\<close> exits
  with status 128 because an object cannot be read.
\<close>

definition damaged_env :: os_env where
  "damaged_env =
     fixture_env\<lparr>run := (\<lambda>dir cmd.
        if dir = ''/work/foo'' \<and> cmd = [''git'', ''log'', ''--oneline'', ''1.0.0'']
        then Exit 128 ''fatal: loose object b2c3d4e is corrupt''
        else run fixture_env dir cmd)\<rparr>"

text \<open>
  The same repository where a commit subject reachable from \<^verbatim>\<open>v1.0.0\<close> is not valid
  UTF-8, so that decoding the output of that query fails.
\<close>

definition undecodable_env :: os_env where
  "undecodable_env =
     fixture_env\<lparr>run := (\<lambda>dir cmd.
        if dir = ''/work/foo'' \<and> cmd = [''git'', ''log'', ''--oneline'', ''v1.0.0'']
        then ExitUndecodable
        else run fixture_env dir cmd)\<rparr>"

definition w0 :: world where
  "w0 = \<lparr>cwd = ''/home'', stdout = []\<rparr>"

definition pkg :: "string \<Rightarrow> package" where
  "pkg f = \<lparr>filename = f, remote_file = False, old_behavior = False\<rparr>"

section \<open>Auxiliary facts\<close>

subsection \<open>The built-ins\<close>

lemma split_from_nonempty: "split_from sep cur s \<noteq> []"
  by (induction sep cur s rule: split_from.induct) auto

lemma name_index: "py_index (py_split ''-'' (basename path)) 0 = Inr (repo_name path)"
  using split_from_nonempty [of "''-''" "[]" "basename path"]
  by (cases "split_from ''-'' [] (basename path)") (auto simp: py_index_def py_split_def repo_name_def)

subsection \<open>One history query\<close>

lemma join_log_cmd: "py_join '' '' (log_cmd c) = ''git log --oneline '' @ c"
  by (simp add: log_cmd_def)

lemma git_log_fst:
  "cwd w = dir \<Longrightarrow> fst (git E ''log'' [''--oneline'', c] w) = query E dir c"
  by (auto simp: git_def query_def Let_def py_print_def split: proc_outcome.splits)

lemma git_log_snd:
  "snd (git E ''log'' [''--oneline'', c] w) =
     (if safe_command (log_cmd c) then py_print (running (log_cmd c)) w else w)"
  by (auto simp: git_def Let_def log_cmd_def running_def tasks_def split: proc_outcome.splits)

lemma git_head_fst:
  "cwd w = dir \<Longrightarrow> fst (git E ''log'' [''--oneline''] w) = query_head E dir"
  by (auto simp: git_def query_head_def Let_def py_print_def split: proc_outcome.splits)

lemma safe_head: "safe_command [''git'', ''log'', ''--oneline'']"
  by (simp add: safe_command_def ESCAPE_CHARS_def)

lemma git_head_snd:
  "snd (git E ''log'' [''--oneline''] w) = py_print (running [''git'', ''log'', ''--oneline'']) w"
  by (auto simp: git_def Let_def running_def tasks_def safe_head split: proc_outcome.splits)

lemma query_not_value_safe: "query E dir c \<noteq> Inl ValueError \<Longrightarrow> safe_command (log_cmd c)"
  by (auto simp: query_def git_def Let_def log_cmd_def split: if_splits)

lemma query_GitError_iff:
  "query E dir c = Inl (GitError rc) \<longleftrightarrow>
     safe_command (log_cmd c) \<and> rc \<noteq> 0 \<and> (\<exists>out. run E dir (log_cmd c) = Exit rc out)"
  by (auto simp: query_def git_def Let_def log_cmd_def tasks_def py_print_def split: if_splits proc_outcome.splits)


lemma git_log_eq:
  "git E ''log'' [''--oneline'', c] w =
     (query E (cwd w) c,
      if safe_command (log_cmd c) then py_print (running (log_cmd c)) w else w)"
  by (rule prod_eqI) (simp_all add: git_log_fst git_log_snd)

lemma git_head_eq:
  "git E ''log'' [''--oneline''] w =
     (query_head E (cwd w), py_print (running [''git'', ''log'', ''--oneline'']) w)"
  by (rule prod_eqI) (simp_all add: git_head_fst git_head_snd)

lemma raises_GitError_safe:
  "raises_GitError (query E dir c) \<Longrightarrow> safe_command (log_cmd c)"
  by (rule query_not_value_safe [of E dir]) auto

lemma query_Inr_safe: "query E dir c = Inr out \<Longrightarrow> safe_command (log_cmd c)"
  by (rule query_not_value_safe [of E dir]) auto

lemma raises_GitError_cases:
  "raises_GitError r \<Longrightarrow> \<exists>rc. r = Inl (GitError rc)"
  by (cases r rule: raises_GitError.cases) auto

lemma cwd_py_print [simp]: "cwd (py_print s w) = cwd w"
  by (simp add: py_print_def)

subsection \<open>The candidate loops\<close>

lemma all_lines_fail:
  "raises_GitError (query E (cwd w) c) \<Longrightarrow>
     all_lines_loop E (c # rest) w = all_lines_loop E rest (py_print (running (log_cmd c)) w)"
  by (auto simp: git_log_eq raises_GitError_safe dest!: raises_GitError_cases)


lemma all_lines_fatal:
  "query E (cwd w) c = Inl e \<Longrightarrow> \<not> raises_GitError (Inl e :: error + string) \<Longrightarrow>
     all_lines_loop E (c # rest) w =
       (Inl e, if safe_command (log_cmd c) then py_print (running (log_cmd c)) w else w)"
  by (cases e) (simp_all add: git_log_eq)

lemma first_line_fail:
  "raises_GitError (query E (cwd w) c) \<Longrightarrow>
     first_line_loop E (c # rest) w = first_line_loop E rest (py_print (running (log_cmd c)) w)"
  by (auto simp: git_log_eq raises_GitError_safe dest!: raises_GitError_cases)

lemma first_line_ok:
  "query E (cwd w) c = Inr out \<Longrightarrow>
     first_line_loop E (c # rest) w =
       (py_index (splitlines out) 0, py_print (running (log_cmd c)) w)"
  by (simp add: git_log_eq query_Inr_safe of_result_def)

lemma first_line_fatal:
  "query E (cwd w) c = Inl e \<Longrightarrow> \<not> raises_GitError (Inl e :: error + string) \<Longrightarrow>
     first_line_loop E (c # rest) w =
       (Inl e, if safe_command (log_cmd c) then py_print (running (log_cmd c)) w else w)"
  by (cases e) (simp_all add: git_log_eq)

lemma attempted_simps [simp]:
  "cwd (attempted cs w) = cwd w"
  "attempted [] w = w"
  "attempted cs (py_print (running (log_cmd c)) w) = attempted (c # cs) w"
  by (simp_all add: attempted_def py_print_def)

lemma all_lines_skip:
  "\<forall>s\<in>set fs. raises_GitError (query E (cwd w) s) \<Longrightarrow>
     all_lines_loop E (fs @ rest) w = all_lines_loop E rest (attempted fs w)"
proof (induction fs arbitrary: w)
  case Nil
  show ?case by simp
next
  case (Cons c fs)
  have "all_lines_loop E ((c # fs) @ rest) w =
          all_lines_loop E (fs @ rest) (py_print (running (log_cmd c)) w)"
    using Cons.prems by (simp add: all_lines_fail del: all_lines_loop.simps)
  also have "\<dots> = all_lines_loop E rest (attempted fs (py_print (running (log_cmd c)) w))"
    using Cons.prems by (intro Cons.IH) simp
  finally show ?case by simp
qed

lemma first_line_skip:
  "\<forall>s\<in>set fs. raises_GitError (query E (cwd w) s) \<Longrightarrow>
     first_line_loop E (fs @ rest) w = first_line_loop E rest (attempted fs w)"
proof (induction fs arbitrary: w)
  case Nil
  show ?case by simp
next
  case (Cons c fs)
  have "first_line_loop E ((c # fs) @ rest) w =
          first_line_loop E (fs @ rest) (py_print (running (log_cmd c)) w)"
    using Cons.prems by (simp add: first_line_fail del: first_line_loop.simps)
  also have "\<dots> = first_line_loop E rest (attempted fs (py_print (running (log_cmd c)) w))"
    using Cons.prems by (intro Cons.IH) simp
  finally show ?case by simp
qed

lemma attempted_append: "attempted cs (attempted fs w) = attempted (fs @ cs) w"
  by (simp add: attempted_def)

lemma attempted_print: "py_print (running (log_cmd c)) (attempted fs w) = attempted (fs @ [c]) w"
  by (simp add: attempted_def py_print_def)


lemma first_line_found:
  assumes "k < length tags"
    and "\<forall>s\<in>set (take k tags). raises_GitError (query E (cwd w) s)"
    and "query E (cwd w) (tags ! k) = Inr out"
  shows "first_line_loop E tags w = (py_index (splitlines out) 0, attempted (take (Suc k) tags) w)"
proof -
  have "first_line_loop E (take k tags @ tags ! k # drop (Suc k) tags) w =
          first_line_loop E (tags ! k # drop (Suc k) tags) (attempted (take k tags) w)"
    using assms(2) by (rule first_line_skip)
  also have "\<dots> = (py_index (splitlines out) 0, py_print (running (log_cmd (tags ! k))) (attempted (take k tags) w))"
    using assms(3) by (intro first_line_ok) simp
  finally show ?thesis
    using assms(1) by (simp add: attempted_print take_Suc_conv_app_nth id_take_nth_drop [symmetric])
qed

lemma all_lines_exhausted:
  "\<forall>s\<in>set tags. raises_GitError (query E (cwd w) s) \<Longrightarrow>
     all_lines_loop E tags w = (Inr [], attempted tags w)"
  using all_lines_skip [of tags E w "[]"] by simp

lemma first_line_exhausted:
  "\<forall>s\<in>set tags. raises_GitError (query E (cwd w) s) \<Longrightarrow>
     first_line_loop E tags w = (Inr [], attempted tags w)"
  using first_line_skip [of tags E w "[]"] by simp

lemma split_space1_hash:
  "CHR '' '' \<notin> set h \<Longrightarrow> split_space1 (h @ CHR '' '' # subject) = [h, subject]"
  by (induction h) (auto simp: split_space1_def)

lemma split_space1_none: "CHR '' '' \<notin> set s \<Longrightarrow> split_space1 s = [s]"
  by (simp add: split_space1_def)

text \<open>The three branches of the function, once the directory has been entered.\<close>

lemma gcfo_zero:
  assumes "path_exists E path" "can_chdir E path"
  shows "git_commit_from_offset E path tag 0 w =
           then_do (first_line_loop E (tag_candidates (repo_name path) tag)) (\<lambda>result.
           then_do (of_result (unpack2 (split_space1 result))) (\<lambda>(rv, message).
           then_do (os_chdir E (cwd w)) (\<lambda>_. ret rv))) (w\<lparr>cwd := path\<rparr>)"
  using assms
  by (simp add: git_commit_from_offset_def then_do_def os_chdir_def of_result_def name_index)

lemma gcfo_magic:
  assumes "path_exists E path" "can_chdir E path" "post_commit AND 0xffffffff = BAD_MAGIC"
  shows "git_commit_from_offset E path tag post_commit w =
           then_do (git E ''log'' [''--oneline'']) (\<lambda>output.
           then_do (of_result (py_index (splitlines output) (drop_bit 32 post_commit))) (\<lambda>line.
           then_do (of_result (unpack2 (split_space1 line))) (\<lambda>(rv, message).
           then_do (os_chdir E (cwd w)) (\<lambda>_. ret rv))))
             (py_print ''BAD_MAGIC (0xfacefeed) detected!'' (w\<lparr>cwd := path\<rparr>))"
proof -
  have "post_commit \<noteq> 0"
    using assms(3) by (auto simp: BAD_MAGIC_def)
  then show ?thesis
    using assms
    by (simp add: git_commit_from_offset_def then_do_def os_chdir_def of_result_def name_index
        filter_commit_def)
qed

lemma gcfo_plain:
  assumes "path_exists E path" "can_chdir E path" "post_commit AND 0xffffffff \<noteq> BAD_MAGIC"
    "post_commit \<noteq> 0"
  shows "git_commit_from_offset E path tag post_commit w =
           then_do (all_lines_loop E (tag_candidates (repo_name path) tag)) (\<lambda>result.
           then_do (of_result (py_index result (int (length result) - post_commit))) (\<lambda>line.
           then_do (of_result (unpack2 (split_space1 (py_rstrip line)))) (\<lambda>(rv, message).
           then_do (os_chdir E (cwd w)) (\<lambda>_. ret rv)))) (w\<lparr>cwd := path\<rparr>)"
  using assms
  by (simp add: git_commit_from_offset_def then_do_def os_chdir_def of_result_def name_index
        filter_commit_def Let_def)

lemma attempted_restore:
  "(attempted cs (w\<lparr>cwd := p\<rparr>))\<lparr>cwd := cwd w\<rparr> = attempted cs w"
  by (simp add: attempted_def)



lemma exit_raises_GitError:
  "safe_command (log_cmd s) \<Longrightarrow> nonzero_exit (run E dir (log_cmd s)) \<Longrightarrow>
     raises_GitError (query E dir s)"
  by (cases "run E dir (log_cmd s)")
     (auto simp: query_def git_def Let_def log_cmd_def tasks_def py_print_def)

lemma attempted_cwd: "attempted cs (w\<lparr>cwd := p\<rparr>) = (attempted cs w)\<lparr>cwd := p\<rparr>"
  by (simp add: attempted_def)

lemma all_lines_stopped:
  assumes "k < length tags"
    and "\<forall>s\<in>set (take k tags). raises_GitError (query E (cwd w) s)"
    and "query E (cwd w) (tags ! k) = Inl e"
    and "\<not> raises_GitError (Inl e :: error + string)"
  shows "all_lines_loop E tags w =
           (Inl e, attempted (take k tags @ (if safe_command (log_cmd (tags ! k)) then [tags ! k] else [])) w)"
proof -
  have "all_lines_loop E (take k tags @ tags ! k # drop (Suc k) tags) w =
          all_lines_loop E (tags ! k # drop (Suc k) tags) (attempted (take k tags) w)"
    using assms(2) by (rule all_lines_skip)
  also have "\<dots> = (Inl e, if safe_command (log_cmd (tags ! k))
                         then py_print (running (log_cmd (tags ! k))) (attempted (take k tags) w)
                         else attempted (take k tags) w)"
    using assms(3,4) by (intro all_lines_fatal) simp_all
  finally show ?thesis
    using assms(1) by (simp add: attempted_print id_take_nth_drop [symmetric])
qed

lemma first_line_stopped:
  assumes "k < length tags"
    and "\<forall>s\<in>set (take k tags). raises_GitError (query E (cwd w) s)"
    and "query E (cwd w) (tags ! k) = Inl e"
    and "\<not> raises_GitError (Inl e :: error + string)"
  shows "first_line_loop E tags w =
           (Inl e, attempted (take k tags @ (if safe_command (log_cmd (tags ! k)) then [tags ! k] else [])) w)"
proof -
  have "first_line_loop E (take k tags @ tags ! k # drop (Suc k) tags) w =
          first_line_loop E (tags ! k # drop (Suc k) tags) (attempted (take k tags) w)"
    using assms(2) by (rule first_line_skip)
  also have "\<dots> = (Inl e, if safe_command (log_cmd (tags ! k))
                         then py_print (running (log_cmd (tags ! k))) (attempted (take k tags) w)
                         else attempted (take k tags) w)"
    using assms(3,4) by (intro first_line_fatal) simp_all
  finally show ?thesis
    using assms(1) by (simp add: attempted_print id_take_nth_drop [symmetric])
qed






subsection \<open>Indexing, the marker and unpacking\<close>

lemma py_index_Nil: "py_index [] i = Inl IndexError"
  by (auto simp: py_index_def)

lemma low_bits_take_bit: "(x::int) AND 0xffffffff = take_bit 32 x"
  by (simp add: take_bit_eq_mask mask_eq_exp_minus_1)

lemma encode_low_bits: "encode_anomalous x AND 0xffffffff = BAD_MAGIC"
  unfolding encode_anomalous_def BAD_MAGIC_def low_bits_take_bit
  by (simp add: take_bit_push_bit)

lemma encode_high_bits: "drop_bit 32 (encode_anomalous x) = x"
  unfolding encode_anomalous_def BAD_MAGIC_def
  by (simp add: drop_bit_or drop_bit_push_bit)

lemma unpack3_case:
  "unpack3 xs = (case xs of [a, b, c] \<Rightarrow> Inr (a, b, c) | _ \<Rightarrow> Inl ValueError)"
  by (cases xs rule: unpack3.cases) simp_all

lemma unpack2_case:
  "unpack2 xs = (case xs of [a, b] \<Rightarrow> Inr (a, b) | _ \<Rightarrow> Inl ValueError)"
  by (cases xs rule: unpack2.cases) simp_all

lemma py_int_error: "py_int s = Inl e \<Longrightarrow> e = ValueError"
  by (auto simp: py_int_def Let_def split: option.splits prod.splits)

lemma isl_py_int: "isl (py_int s) \<longleftrightarrow> py_int s = Inl ValueError"
  by (cases "py_int s") (auto dest: py_int_error)

section \<open>The claims\<close>

subsection \<open>Offset zero\<close>

text \<open>
  C7. With \<^verbatim>\<open>post_commit = 0\<close> the candidates are queried in list order. If the first
  \<^verbatim>\<open>k\<close> raise \<^verbatim>\<open>GitError\<close> and candidate \<^verbatim>\<open>k\<close> succeeds with a first line of the form
  \<^verbatim>\<open><hash> <subject>\<close>, the function returns that hash, the working directory is back
  where it was, and exactly the candidates up to \<^verbatim>\<open>k\<close> have been queried: the candidates
  after the first success are not attempted.
\<close>

theorem C7_zero_offset_first_line:
  assumes "path_exists E path" and "can_chdir E path" and "can_chdir E (cwd w)"
    and "k < length (tag_candidates (repo_name path) tag)"
    and "\<forall>s\<in>set (take k (tag_candidates (repo_name path) tag)). raises_GitError (query E path s)"
    and "query E path (tag_candidates (repo_name path) tag ! k) = Inr out"
    and "splitlines out = (h @ CHR '' '' # subject) # older"
    and "CHR '' '' \<notin> set h"
  shows "git_commit_from_offset E path tag 0 w =
           (Inr h, attempted (take (Suc k) (tag_candidates (repo_name path) tag)) w)"
proof -
  let ?tags = "tag_candidates (repo_name path) tag"
  have loop: "first_line_loop E ?tags (w\<lparr>cwd := path\<rparr>) =
                (py_index (splitlines out) 0, attempted (take (Suc k) ?tags) (w\<lparr>cwd := path\<rparr>))"
    using assms(4-6) by (intro first_line_found) simp_all
  have line: "py_index (splitlines out) 0 = Inr (h @ CHR '' '' # subject)"
    using assms(7) by (simp add: py_index_def)
  show ?thesis
    using assms(1-3,8)
    by (simp add: gcfo_zero loop line then_do_def of_result_def split_space1_hash os_chdir_def
        ret_def attempted_restore)
qed

theorem C7_witness:
  "git_commit_from_offset fixture_env ''/work/foo'' ''1.0.0'' 0 w0 =
     (Inr ''c3d4e5f'', attempted [''1.0.0'', ''v1.0.0''] w0)"
proof -
  have a: "path_exists fixture_env ''/work/foo''" "can_chdir fixture_env ''/work/foo''"
    "can_chdir fixture_env (cwd w0)"
    by (simp_all add: fixture_env_def w0_def)
  have t: "tag_candidates (repo_name ''/work/foo'') ''1.0.0'' =
             [''1.0.0'', ''v1.0.0'', ''foo-1.0.0'', ''foo-v1.0.0'']"
    by code_simp
  have k: "1 < length (tag_candidates (repo_name ''/work/foo'') ''1.0.0'')"
    unfolding t by simp
  have f: "\<forall>s\<in>set (take 1 (tag_candidates (repo_name ''/work/foo'') ''1.0.0'')).
             raises_GitError (query fixture_env ''/work/foo'' s)"
    unfolding t by code_simp
  have q: "query fixture_env ''/work/foo'' (tag_candidates (repo_name ''/work/foo'') ''1.0.0'' ! 1) =
             Inr tagged_log"
    unfolding t by code_simp
  have l: "splitlines tagged_log =
             (''c3d4e5f'' @ CHR '' '' # ''release 1.0.0'') #
               [''b2c3d4e add readme'', ''a1b2c3d initial commit'']"
    by code_simp
  have h: "CHR '' '' \<notin> set ''c3d4e5f''"
    by simp
  show ?thesis
    using C7_zero_offset_first_line [OF a k f q l h] unfolding t by simp
qed

subsection \<open>Positive offset without anomaly\<close>





subsection \<open>Candidates that fail\<close>

text \<open>
  C2, as the code has it. When \<^verbatim>\<open>post_commit\<close> carries no anomaly marker and the query of
  every one of the four candidates raises \<^verbatim>\<open>GitError\<close>, the function raises and returns
  nothing; there is no exception of its own for this case. With \<^verbatim>\<open>post_commit = 0\<close> the
  unpacking of \<^verbatim>\<open>''.split(' ', 1)\<close> raises \<^verbatim>\<open>ValueError\<close>; otherwise indexing the empty
  \<^verbatim>\<open>result\<close> raises \<^verbatim>\<open>IndexError\<close>. All four candidates have been queried, in list
  order, and the working directory is left at the repository.
\<close>

theorem C2_exhausted_candidates_raise:
  assumes "path_exists E path" and "can_chdir E path"
    and "snd (fst (filter_commit post_commit w)) = False"
    and "\<forall>s\<in>set (tag_candidates (repo_name path) tag). raises_GitError (query E path s)"
  shows "git_commit_from_offset E path tag post_commit w =
           (Inl (if post_commit = 0 then ValueError else IndexError),
            (attempted (tag_candidates (repo_name path) tag) w)\<lparr>cwd := path\<rparr>)"
proof (cases "post_commit = 0")
  case True
  let ?tags = "tag_candidates (repo_name path) tag"
  have loop: "first_line_loop E ?tags (w\<lparr>cwd := path\<rparr>) = (Inr [], attempted ?tags (w\<lparr>cwd := path\<rparr>))"
    using assms(4) by (intro first_line_exhausted) simp
  have "git_commit_from_offset E path tag 0 w = (Inl ValueError, (attempted ?tags w)\<lparr>cwd := path\<rparr>)"
    by (simp add: gcfo_zero [OF assms(1,2)] then_do_def [of "first_line_loop E ?tags"] loop
        then_do_def of_result_def split_space1_none attempted_cwd)
  then show ?thesis using True by simp
next
  case False
  let ?tags = "tag_candidates (repo_name path) tag"
  have nomagic: "post_commit AND 0xffffffff \<noteq> BAD_MAGIC"
    using assms(3) by (auto simp: filter_commit_def split: if_splits)
  have loop: "all_lines_loop E ?tags (w\<lparr>cwd := path\<rparr>) = (Inr [], attempted ?tags (w\<lparr>cwd := path\<rparr>))"
    using assms(4) by (intro all_lines_exhausted) simp
  have "git_commit_from_offset E path tag post_commit w =
          (Inl IndexError, (attempted ?tags w)\<lparr>cwd := path\<rparr>)"
    using False
    by (simp add: gcfo_plain [OF assms(1,2) nomagic False] then_do_def [of "all_lines_loop E ?tags"]
        loop then_do_def of_result_def py_index_Nil attempted_cwd)
  then show ?thesis using False by simp
qed

theorem C2_witness:
  "git_commit_from_offset fixture_env ''/work/foo'' ''2.0'' 0 w0 =
     (Inl ValueError,
      (attempted [''2.0'', ''v2.0'', ''foo-2.0'', ''foo-v2.0''] w0)\<lparr>cwd := ''/work/foo''\<rparr>)"
proof -
  have a: "path_exists fixture_env ''/work/foo''" "can_chdir fixture_env ''/work/foo''"
    by (simp_all add: fixture_env_def)
  have t: "tag_candidates (repo_name ''/work/foo'') ''2.0'' =
             [''2.0'', ''v2.0'', ''foo-2.0'', ''foo-v2.0'']"
    by code_simp
  have m: "snd (fst (filter_commit 0 w0)) = False"
    by code_simp
  have f: "\<forall>s\<in>set (tag_candidates (repo_name ''/work/foo'') ''2.0'').
             raises_GitError (query fixture_env ''/work/foo'' s)"
    unfolding t by code_simp
  show ?thesis
    using C2_exhausted_candidates_raise [OF a m f] unfolding t by simp
qed

text \<open>
  The claim as stated asks for one dedicated kind of error. In the fixture no candidate of
  the tag \<^verbatim>\<open>2.0\<close> exists: offset 0 ends in \<^verbatim>\<open>ValueError\<close>, offset 3 in \<^verbatim>\<open>IndexError\<close>.
\<close>

theorem C2_counterexample:
  "fst (git_commit_from_offset fixture_env ''/work/foo'' ''2.0'' 0 w0) = Inl ValueError
   \<and> fst (git_commit_from_offset fixture_env ''/work/foo'' ''2.0'' 3 w0) = Inl IndexError"
  by code_simp

text \<open>
  C3, as the code has it. \<^verbatim>\<open>git\<close> turns every non-zero exit status into \<^verbatim>\<open>GitError\<close>,
  whatever the process printed, and both loops skip a candidate on \<^verbatim>\<open>GitError\<close>. A query
  that fails in any other way (a command line \<^verbatim>\<open>safe_command\<close> rejects, a git process that
  cannot be started, an output that cannot be decoded) ends the function with that
  exception unchanged: the candidates after it are not queried, and the working directory
  is left at the repository.
\<close>

theorem C3_only_nonzero_exit_is_skipped:
  assumes "path_exists E path" and "can_chdir E path"
    and "snd (fst (filter_commit post_commit w)) = False"
    and "k < length (tag_candidates (repo_name path) tag)"
    and "\<forall>s\<in>set (take k (tag_candidates (repo_name path) tag)).
           safe_command (log_cmd s) \<and> nonzero_exit (run E path (log_cmd s))"
    and "query E path (tag_candidates (repo_name path) tag ! k) = Inl e"
    and "\<not> raises_GitError (Inl e :: error + string)"
  shows "git_commit_from_offset E path tag post_commit w =
           (Inl e,
            (attempted
               (take k (tag_candidates (repo_name path) tag) @
                (if safe_command (log_cmd (tag_candidates (repo_name path) tag ! k))
                 then [tag_candidates (repo_name path) tag ! k] else [])) w)\<lparr>cwd := path\<rparr>)"
proof -
  let ?tags = "tag_candidates (repo_name path) tag"
  let ?done = "take k ?tags @ (if safe_command (log_cmd (?tags ! k)) then [?tags ! k] else [])"
  have skipped: "\<forall>s\<in>set (take k ?tags). raises_GitError (query E (cwd (w\<lparr>cwd := path\<rparr>)) s)"
    using assms(5) by (auto intro: exit_raises_GitError)
  have stop: "query E (cwd (w\<lparr>cwd := path\<rparr>)) (?tags ! k) = Inl e"
    using assms(6) by simp
  show ?thesis
  proof (cases "post_commit = 0")
    case True
    have loop: "first_line_loop E ?tags (w\<lparr>cwd := path\<rparr>) = (Inl e, attempted ?done (w\<lparr>cwd := path\<rparr>))"
      by (rule first_line_stopped [OF assms(4) skipped stop assms(7)])
    show ?thesis
      unfolding True gcfo_zero [OF assms(1,2)] then_do_def [of "first_line_loop E ?tags"] loop
      by (simp add: attempted_cwd)
  next
    case False
    have nomagic: "post_commit AND 0xffffffff \<noteq> BAD_MAGIC"
      using assms(3) by (auto simp: filter_commit_def split: if_splits)
    have loop: "all_lines_loop E ?tags (w\<lparr>cwd := path\<rparr>) = (Inl e, attempted ?done (w\<lparr>cwd := path\<rparr>))"
      by (rule all_lines_stopped [OF assms(4) skipped stop assms(7)])
    show ?thesis
      unfolding gcfo_plain [OF assms(1,2) nomagic False] then_do_def [of "all_lines_loop E ?tags"] loop
      by (simp add: attempted_cwd)
  qed
qed

theorem C3_witness:
  "git_commit_from_offset undecodable_env ''/work/foo'' ''1.0.0'' 0 w0 =
     (Inl UnicodeDecodeError,
      (attempted [''1.0.0'', ''v1.0.0''] w0)\<lparr>cwd := ''/work/foo''\<rparr>)"
proof -
  have a: "path_exists undecodable_env ''/work/foo''" "can_chdir undecodable_env ''/work/foo''"
    by (simp_all add: undecodable_env_def fixture_env_def)
  have t: "tag_candidates (repo_name ''/work/foo'') ''1.0.0'' =
             [''1.0.0'', ''v1.0.0'', ''foo-1.0.0'', ''foo-v1.0.0'']"
    by code_simp
  have m: "snd (fst (filter_commit 0 w0)) = False"
    by code_simp
  have k: "1 < length (tag_candidates (repo_name ''/work/foo'') ''1.0.0'')"
    unfolding t by simp
  have f: "\<forall>s\<in>set (take 1 (tag_candidates (repo_name ''/work/foo'') ''1.0.0'')).
             safe_command (log_cmd s) \<and> nonzero_exit (run undecodable_env ''/work/foo'' (log_cmd s))"
    unfolding t by code_simp
  have q: "query undecodable_env ''/work/foo''
             (tag_candidates (repo_name ''/work/foo'') ''1.0.0'' ! 1) = Inl UnicodeDecodeError"
    unfolding t by code_simp
  have r: "\<not> raises_GitError (Inl UnicodeDecodeError :: error + string)"
    by simp
  have c: "safe_command (log_cmd ''v1.0.0'')"
    by code_simp
  show ?thesis
    using C3_only_nonzero_exit_is_skipped [OF a m k f q r] c unfolding t by simp
qed

text \<open>
  The claim as stated makes a damaged repository fatal. In the fixture the query of
  \<^verbatim>\<open>1.0.0\<close> exits with status 128 on a corrupt object; the function goes on to \<^verbatim>\<open>v1.0.0\<close>
  and returns its commit.
\<close>

theorem C3_counterexample:
  "run damaged_env ''/work/foo'' (log_cmd ''1.0.0'') =
     Exit 128 ''fatal: loose object b2c3d4e is corrupt''
   \<and> git_commit_from_offset damaged_env ''/work/foo'' ''1.0.0'' 0 w0 =
       (Inr ''c3d4e5f'', attempted [''1.0.0'', ''v1.0.0''] w0)"
  by code_simp

subsection \<open>The anomaly marker\<close>

text \<open>
  C6. Decoding the anomalous encoding of \<^verbatim>\<open>x\<close> gives \<^verbatim>\<open>x\<close> back with the flag set. It
  holds for every Python integer, so in particular for the non-negative 32-bit ones.
\<close>

theorem C6_decode_encode_anomalous:
  "fst (filter_commit (encode_anomalous x) w) = (x, True)"
  by (simp add: filter_commit_def encode_low_bits encode_high_bits)

text \<open>
  C4. When \<^verbatim>\<open>filter_commit\<close> finds the marker and decodes the offset, the function runs
  one query, \<^verbatim>\<open>git log --oneline\<close> without a ref, and returns the hash of the entry at
  index \<^verbatim>\<open>offset\<close> from the newest commit. The result does not mention \<^verbatim>\<open>tag\<close>, and no
  tag candidate is queried.
\<close>

theorem C4_anomaly_indexes_from_head:
  assumes "path_exists E path" and "can_chdir E path" and "can_chdir E (cwd w)"
    and "fst (filter_commit post_commit w) = (offset, True)"
    and "query_head E path = Inr out"
    and "0 \<le> offset" and "offset < int (length (splitlines out))"
    and "splitlines out ! nat offset = h @ CHR '' '' # subject"
    and "CHR '' '' \<notin> set h"
  shows "git_commit_from_offset E path tag post_commit w =
           (Inr h, w\<lparr>stdout := stdout w @
              [''BAD_MAGIC (0xfacefeed) detected!'', running [''git'', ''log'', ''--oneline'']]\<rparr>)"
proof -
  have magic: "post_commit AND 0xffffffff = BAD_MAGIC" and off: "drop_bit 32 post_commit = offset"
    using assms(4) by (auto simp: filter_commit_def split: if_splits)
  have idx: "py_index (splitlines out) offset = Inr (h @ CHR '' '' # subject)"
    using assms(6-8) by (simp add: py_index_def)
  show ?thesis
    using assms(3,5,9) idx
    by (simp add: gcfo_magic [OF assms(1,2) magic] off then_do_def of_result_def git_head_eq
        split_space1_hash os_chdir_def ret_def py_print_def)
qed

theorem C4_witness:
  "git_commit_from_offset fixture_env ''/work/foo'' ''1.0.0'' (encode_anomalous 2) w0 =
     (Inr ''c3d4e5f'', w0\<lparr>stdout :=
        [''BAD_MAGIC (0xfacefeed) detected!'', ''Running: git log --oneline'']\<rparr>)
   \<and> length (splitlines head_log) = 5"
proof -
  have a: "path_exists fixture_env ''/work/foo''" "can_chdir fixture_env ''/work/foo''"
    "can_chdir fixture_env (cwd w0)"
    by (simp_all add: fixture_env_def w0_def)
  have d: "fst (filter_commit (encode_anomalous 2) w0) = (2, True)"
    by code_simp
  have q: "query_head fixture_env ''/work/foo'' = Inr head_log"
    by code_simp
  have n: "(0::int) \<le> 2" "2 < int (length (splitlines head_log))"
    by code_simp+
  have l: "splitlines head_log ! nat 2 = ''c3d4e5f'' @ CHR '' '' # ''release 1.0.0''"
    by code_simp
  have h: "CHR '' '' \<notin> set ''c3d4e5f''"
    by simp
  have five: "length (splitlines head_log) = 5"
    by code_simp
  have r: "running [''git'', ''log'', ''--oneline''] = ''Running: git log --oneline''"
    by code_simp
  show ?thesis
    using C4_anomaly_indexes_from_head [OF a d q n l h] five by (simp add: r w0_def)
qed

subsection \<open>Decoding the version string\<close>

text \<open>
  C5. For a file name of three hyphen-delimited tokens whose base token contains \<^verbatim>\<open>dev\<close>
  but not \<^verbatim>\<open>.dev\<close>, splits at \<^verbatim>\<open>dev\<close> into a tag and digits, and whose tag splits at the
  dot into the integers \<^verbatim>\<open>major\<close> and \<^verbatim>\<open>minor\<close>, \<^verbatim>\<open>version\<close> returns the tag
  \<^verbatim>\<open>v<major>.<minor - 1>\<close> and an encoded offset that \<^verbatim>\<open>filter_commit\<close> decodes to the
  value of the digits with the anomaly flag set.
\<close>

theorem C5_anomalous_version:
  assumes "py_split ''-'' (basename (filename p)) = [name, base, build]"
    and "py_in ''dev'' base" and "\<not> py_in ''.dev'' base"
    and "py_split ''dev'' base = [tagRaw, digits]"
    and "py_split ''.'' tagRaw = [major, minor]"
    and "py_int major = Inr a" and "py_int minor = Inr b" and "py_int digits = Inr d"
  shows "\<exists>encoded. version p = Inr (''v'' @ py_str a @ ''.'' @ py_str (b - 1), encoded)
           \<and> fst (filter_commit encoded w) = (d, True)"
proof -
  have "version p = Inr (''v'' @ py_str a @ ''.'' @ py_str (b - 1), encode_anomalous d)"
    using assms by (simp add: version_def and_then_def)
  moreover have "fst (filter_commit (encode_anomalous d) w) = (d, True)"
    by (simp add: filter_commit_def encode_low_bits encode_high_bits)
  ultimately show ?thesis by blast
qed

theorem C5_witness:
  "\<exists>encoded. version (pkg ''astropy-4.1dev500-0'') = Inr (''v4.0'', encoded)
      \<and> fst (filter_commit encoded w0) = (500, True)"
proof -
  have s: "py_split ''-'' (basename (filename (pkg ''astropy-4.1dev500-0''))) =
             [''astropy'', ''4.1dev500'', ''0'']"
    by code_simp
  have i: "py_in ''dev'' ''4.1dev500''" and n: "\<not> py_in ''.dev'' ''4.1dev500''"
    by code_simp+
  have d: "py_split ''dev'' ''4.1dev500'' = [''4.1'', ''500'']"
    by code_simp
  have t: "py_split ''.'' ''4.1'' = [''4'', ''1'']"
    by code_simp
  have a: "py_int ''4'' = Inr 4" and b: "py_int ''1'' = Inr 1" and c: "py_int ''500'' = Inr 500"
    by code_simp+
  have r: "''v'' @ py_str 4 @ ''.'' @ py_str (1 - 1) = ''v4.0''"
    by code_simp
  show ?thesis
    using C5_anomalous_version [OF s i n d t a b c, of w0] unfolding r .
qed

text \<open>
  C8, as the code has it. \<^verbatim>\<open>version\<close> raises exactly on the malformed version strings
  described above, and what it raises is always \<^verbatim>\<open>ValueError\<close>: besides a wrong number of
  hyphen-delimited tokens and an offset segment that is no integer, also a base token that
  does not split into two pieces, and in the \<^verbatim>\<open>dev\<close> scheme a tag that is not
  \<^verbatim>\<open>major.minor\<close>.
\<close>

theorem C8_version_fails_iff_malformed:
  "(version p = Inl ValueError) = malformed (basename (filename p))
   \<and> isl (version p) = malformed (basename (filename p))"
  unfolding version_def malformed_def and_then_def unpack3_case unpack2_case
  by (auto simp: isl_py_int Let_def split: list.splits sum.splits dest: py_int_error)

theorem C8_witness:
  "version (pkg ''onlytwoparts-x'') = Inl ValueError"
proof -
  have "malformed (basename (filename (pkg ''onlytwoparts-x'')))"
    by code_simp
  then show ?thesis
    using C8_version_fails_iff_malformed [of "pkg ''onlytwoparts-x''"] by simp
qed

text \<open>
  The claim as stated gives two causes only. \<^verbatim>\<open>astropy-4dev500-0\<close> has three tokens and
  the offset segment \<^verbatim>\<open>500\<close>, and \<^verbatim>\<open>version\<close> raises on it, since the tag \<^verbatim>\<open>4\<close> has no
  dot.
\<close>

theorem C8_counterexample:
  "length (py_split ''-'' ''astropy-4dev500-0'') = 3
   \<and> py_int ''500'' = Inr 500
   \<and> version (pkg ''astropy-4dev500-0'') = Inl ValueError"
  by code_simp

subsection \<open>Tag candidates\<close>

text \<open>
  C9. For every name and tag the candidate list has exactly these four entries in this
  order; nothing is removed and nothing is looked up.
\<close>

theorem C9_tag_candidates:
  "tag_candidates name tag = [tag, ''v'' @ tag, name @ ''-'' @ tag, name @ ''-v'' @ tag]
   \<and> length (tag_candidates name tag) = 4"
  by (simp add: tag_candidates_def)

end
